theory Spec2Isabelle
  imports Complex_Main "HOL-Library.Sublist" "HOL-Library.Multiset"
begin

section \<open>The AI Innovation Generator script (organizing1.py)\<close>

text \<open>
  The script is one Streamlit page: it loads three pretrained models, defines four
  helper functions and then dispatches on the selected input type. The models, the
  dataframe statistics and the widgets are third-party; they are parameters of the
  functions below. Python exceptions are values of \<open>py_exception\<close>; whatever the
  script shows to the user or asks of a model is an event appended to the world.
  Python strings are \<open>string\<close>; characters outside ASCII are written as their UTF-8
  bytes, and \<open>capitalize\<close> and \<open>strip\<close> act on the ASCII range. Python floats that
  are probabilities are rationals (every finite float is one).
\<close>

subsection \<open>Exceptions, events, the world\<close>

datatype py_exception =
    NameError string
  | IndexError
  | KeyError string
  | TypeError
  | ValueError
  | External string

record gen_call =
  gc_prompt :: string
  gc_max_length :: nat
  gc_num_return_sequences :: nat
  gc_temperature :: rat
  gc_top_p :: rat

text \<open>
  A column label as pandas holds it (a CSV header gives strings; a frame built in
  another way may carry integers), and a statistic as \<open>describe\<close> reports it.
\<close>

datatype label = StrLabel string | IntLabel int

datatype stat_value = Num rat | NaN | Txt string

type_synonym stats_dict = "(label \<times> (string \<times> stat_value) list) list"

datatype ui_event =
    StTitle string
  | StMarkdown string
  | StError string py_exception
  | StWarning string
  | StSuccess string
  | StWrite string
  | StImage
  | StDataframe
  | StJson stats_dict
  | StCaption string
  | StStop
  | TextGenCall gen_call

text \<open>
  \<open>TextGenCall\<close> records a call of the text-generation pipeline with its arguments;
  \<open>StStop\<close> is \<open>st.stop()\<close>. Input widgets, spinners, \<open>st.set_page_config\<close> and
  \<open>print\<close> render no result and are not recorded.
\<close>

text \<open>
  The world: what has been rendered and requested so far, in order, and the state of
  the sampling random source that the text generator draws from.
\<close>

record 'r world =
  events :: "ui_event list"
  rng :: 'r

definition emit :: "ui_event \<Rightarrow> 'r world \<Rightarrow> 'r world" where
  "emit e w = w\<lparr>events := events w @ [e]\<rparr>"

subsection \<open>Names the module can resolve\<close>

text \<open>
  Lines 1-6 import \<open>streamlit as st\<close>, \<open>pipeline\<close>, \<open>CLIPProcessor\<close>, \<open>CLIPModel\<close>,
  \<open>Image\<close>, \<open>pandas as pd\<close>, \<open>torch\<close> and \<open>traceback\<close>; lines 21-147 bind the
  functions and the three model handles. A name that is neither of these nor a
  builtin raises NameError when it is evaluated.
\<close>

definition module_imports :: "string list" where
  "module_imports =
     [''st'', ''pipeline'', ''CLIPProcessor'', ''CLIPModel'', ''Image'', ''pd'',
      ''torch'', ''traceback'']"

definition module_bindings :: "string list" where
  "module_bindings =
     [''load_models'', ''text_generator'', ''clip_model'', ''clip_processor'',
      ''generate_innovation'', ''analyze_image'', ''analyze_data'',
      ''generate_random_concept'']"

definition resolve_global :: "string \<Rightarrow> py_exception + unit" where
  "resolve_global name =
     (if name \<in> set (module_imports @ module_bindings) then Inr ()
      else Inl (NameError name))"

subsection \<open>generate_random_concept (lines 121-147)\<close>

record random_concept =
  idea :: string
  use_case :: string

definition concepts_random :: "random_concept list" where
  "concepts_random =
     [\<lparr>idea = ''AI-powered IoT sensors to optimize energy usage in smart homes.'',
       use_case = ''Reduces energy bills by up to 40% while ensuring sustainability.''\<rparr>,
      \<lparr>idea = ''AR glasses for real-time translation during conversations.'',
       use_case = ''Breaks language barriers, enabling seamless global communication.''\<rparr>,
      \<lparr>idea = ''Wearable devices that monitor mental health and provide guided therapy sessions.'',
       use_case = ''Helps individuals manage stress and anxiety proactively.''\<rparr>,
      \<lparr>idea = ''Personalized e-learning platforms using adaptive AI to match individual learning styles.'',
       use_case = ''Improves student outcomes and engagement by 50%.''\<rparr>,
      \<lparr>idea = ''Blockchain-based food traceability system.'',
       use_case = ''Ensures food safety by tracking the origin and quality of produce.''\<rparr>]"

text \<open>
  \<open>random.choice(concepts)\<close>: the list is built first, then the name \<open>random\<close> is
  looked up. The argument \<open>draw\<close> is the index the random source would deliver.
\<close>

definition generate_random_concept :: "nat \<Rightarrow> py_exception + random_concept" where
  "generate_random_concept draw =
     (case resolve_global ''random'' of
        Inl e \<Rightarrow> Inl e
      | Inr _ \<Rightarrow> Inr (concepts_random ! (draw mod length concepts_random)))"

subsection \<open>String helpers\<close>

definition newline :: char where
  "newline = CHR 0x0A"

definition ascii_lowercase :: string where
  "ascii_lowercase = ''abcdefghijklmnopqrstuvwxyz''"

definition ascii_uppercase :: string where
  "ascii_uppercase = ''ABCDEFGHIJKLMNOPQRSTUVWXYZ''"

definition upper_char :: "char \<Rightarrow> char" where
  "upper_char c =
     (case map_of (zip ascii_lowercase ascii_uppercase) c of Some u \<Rightarrow> u | None \<Rightarrow> c)"

definition lower_char :: "char \<Rightarrow> char" where
  "lower_char c =
     (case map_of (zip ascii_uppercase ascii_lowercase) c of Some l \<Rightarrow> l | None \<Rightarrow> c)"

text \<open>\<open>str.capitalize()\<close>: the first character upper-cased, the others lower-cased.\<close>

fun capitalize :: "string \<Rightarrow> string" where
  "capitalize [] = []"
| "capitalize (c # cs) = upper_char c # map lower_char cs"

text \<open>
  \<open>str.isspace()\<close> on the ASCII range: tab, line feed, vertical tab, form feed,
  carriage return, the four separators 0x1C-0x1F and the space.
\<close>

definition whitespace :: string where
  "whitespace =
     [CHR 0x09, CHR 0x0A, CHR 0x0B, CHR 0x0C, CHR 0x0D, CHR 0x1C, CHR 0x1D, CHR 0x1E,
      CHR 0x1F, CHR 0x20]"

definition is_space :: "char \<Rightarrow> bool" where
  "is_space c = (c \<in> set whitespace)"

definition strip :: "string \<Rightarrow> string" where
  "strip s = rev (dropWhile is_space (rev (dropWhile is_space s)))"

text \<open>\<open>sep.join(xs)\<close>.\<close>

fun join :: "string \<Rightarrow> string list \<Rightarrow> string" where
  "join sep [] = []"
| "join sep [x] = x"
| "join sep (x # y # ys) = x @ sep @ join sep (y # ys)"

subsection \<open>generate_innovation (lines 58-80)\<close>

text \<open>
  The text-generation pipeline returns a list of dicts, one per returned sequence, or
  raises; it may draw from the sampling random source, which it hands back.
\<close>

type_synonym gen_output = "(string \<times> string) list"

type_synonym 'r text_generator =
  "gen_call \<Rightarrow> 'r \<Rightarrow> (py_exception + gen_output list) \<times> 'r"

definition structured_prompt :: "string \<Rightarrow> string \<Rightarrow> string" where
  "structured_prompt prompt context =
     ''Context: '' @ capitalize context @ ''.'' @ [newline] @
     ''Problem: '' @ prompt @ ''.'' @ [newline] @
     ''Provide a detailed, creative, and practical solution to the problem.'' @ [newline] @
     ''Describe its real-world applications and potential benefits.''"

definition generation_request :: "string \<Rightarrow> string \<Rightarrow> gen_call" where
  "generation_request prompt context =
     \<lparr>gc_prompt = structured_prompt prompt context,
      gc_max_length = 200,
      gc_num_return_sequences = 1,
      gc_temperature = 7 / 10,
      gc_top_p = 95 / 100\<rparr>"

text \<open>\<open>outputs[0]["generated_text"].strip()\<close>, with the two lookups that can raise.\<close>

definition first_generated_text :: "gen_output list \<Rightarrow> py_exception + string" where
  "first_generated_text outputs =
     (case outputs of
        [] \<Rightarrow> Inl IndexError
      | out # _ \<Rightarrow>
          (case map_of out ''generated_text'' of
             None \<Rightarrow> Inl (KeyError ''generated_text'')
           | Some t \<Rightarrow> Inr (strip t)))"

definition generate_innovation ::
  "'r text_generator \<Rightarrow> string \<Rightarrow> string \<Rightarrow> 'r world \<Rightarrow> string option \<times> 'r world" where
  "generate_innovation text_generator prompt context w =
     (let call = generation_request prompt context;
          w1 = emit (TextGenCall call) w;
          (outputs, r) = text_generator call (rng w1);
          w2 = w1\<lparr>rng := r\<rparr>
      in case outputs of
           Inl e \<Rightarrow> (None, emit (StError ''Error generating innovation idea: '' e) w2)
         | Inr outs \<Rightarrow>
             (case first_generated_text outs of
                Inl e \<Rightarrow> (None, emit (StError ''Error generating innovation idea: '' e) w2)
              | Inr text \<Rightarrow> (Some text, w2)))"


subsection \<open>analyze_image (lines 82-102)\<close>

definition concepts_vocab :: "string list" where
  "concepts_vocab =
     [''healthcare'', ''education'', ''sustainability'', ''robotics'',
      ''smart agriculture'', ''business innovation'', ''AI assistants'',
      ''wearable technology'', ''gaming'', ''urban development'']"

text \<open>
  \<open>sorted(xs, key=k, reverse=True)\<close>: CPython reverses the list, sorts it stably in
  ascending order of the key, and reverses the result, so that equal keys keep their
  original order.
\<close>

definition sorted_reverse :: "('a \<Rightarrow> 'k::linorder) \<Rightarrow> 'a list \<Rightarrow> 'a list" where
  "sorted_reverse key xs = rev (sort_key key (rev xs))"

text \<open>
  \<open>clip_processor\<close> is line 93 (the vocabulary and the image encoded together);
  \<open>clip_model\<close> stands for lines 95-97: the forward pass, the softmax over the
  vocabulary and the conversion to a list of floats. Either may raise.
\<close>

definition analyze_image ::
  "(string list \<Rightarrow> 'img \<Rightarrow> py_exception + 'enc) \<Rightarrow> ('enc \<Rightarrow> py_exception + rat list) \<Rightarrow>
     'img \<Rightarrow> 'r world \<Rightarrow> (string \<times> rat) list option \<times> 'r world" where
  "analyze_image clip_processor clip_model img w =
     (case clip_processor concepts_vocab img of
        Inl e \<Rightarrow> (None, emit (StError ''Error analyzing image: '' e) w)
      | Inr inputs \<Rightarrow>
          (case clip_model inputs of
             Inl e \<Rightarrow> (None, emit (StError ''Error analyzing image: '' e) w)
           | Inr probs \<Rightarrow>
               (Some (take 3 (sorted_reverse snd (zip concepts_vocab probs))), w)))"

text \<open>The position of a label in a list (the length of the list when it is absent).\<close>

fun index_of :: "'a \<Rightarrow> 'a list \<Rightarrow> nat" where
  "index_of x [] = 0"
| "index_of x (y # ys) = (if x = y then 0 else Suc (index_of x ys))"

text \<open>
  The order the ranking is claimed to follow: a higher probability first, and among
  equal probabilities the label that comes first in the vocabulary.
\<close>

definition ranked_before :: "string list \<Rightarrow> string \<times> rat \<Rightarrow> string \<times> rat \<Rightarrow> bool" where
  "ranked_before vocab a b =
     (snd a > snd b \<or> (snd a = snd b \<and> index_of (fst a) vocab < index_of (fst b) vocab))"

subsection \<open>Formatting numbers\<close>

definition digit_char :: "nat \<Rightarrow> char" where
  "digit_char d = ''0123456789'' ! d"

definition is_digit :: "char \<Rightarrow> bool" where
  "is_digit c = (c \<in> set ''0123456789'')"

text \<open>\<open>str(n)\<close> of a non-negative integer: its decimal digits.\<close>

fun str_nat :: "nat \<Rightarrow> string" where
  "str_nat n = (if n < 10 then [digit_char n] else str_nat (n div 10) @ [digit_char (n mod 10)])"

declare str_nat.simps [simp del]

definition zero_pad :: "nat \<Rightarrow> string \<Rightarrow> string" where
  "zero_pad width s = replicate (width - length s) CHR ''0'' @ s"

definition round_half_even :: "rat \<Rightarrow> int" where
  "round_half_even x =
     (let f = \<lfloor>x\<rfloor>; d = x - of_int f
      in if d < 1 / 2 then f else if 1 / 2 < d then f + 1 else if even f then f else f + 1)"

text \<open>
  The format \<open>:.4f\<close> of a float: the exact value rounded to four decimals, ties to
  even, printed as integer part, point and four digits, with a minus sign for a
  negative value.
\<close>

definition format_4f :: "rat \<Rightarrow> string" where
  "format_4f x =
     (let n = nat (round_half_even (\<bar>x\<bar> * 10000))
      in (if x < 0 then ''-'' else []) @ str_nat (n div 10000) @ ''.'' @
         zero_pad 4 (str_nat (n mod 10000)))"

text \<open>The number that a string of decimal digits denotes.\<close>

definition digits_value :: "string \<Rightarrow> nat" where
  "digits_value s = foldl (\<lambda>acc c. 10 * acc + index_of c ''0123456789'') 0 s"

subsection \<open>analyze_data (lines 104-119)\<close>

datatype dtype = Int64 | Float64 | Bool | Object

datatype cell = NumCell rat | TxtCell string | BoolCell bool | Missing

record column =
  c_label :: label
  c_dtype :: dtype
  c_values :: "cell list"

text \<open>A dataframe: the length of its index and its columns in order.\<close>

record dataframe =
  nrows :: nat
  columns :: "column list"

definition shape :: "dataframe \<Rightarrow> nat \<times> nat" where
  "shape df = (nrows df, length (columns df))"

definition is_numeric :: "dtype \<Rightarrow> bool" where
  "is_numeric t = (t = Int64 \<or> t = Float64)"

text \<open>A Python dict as an association list with distinct keys, in insertion order.\<close>

fun dict_set :: "'k \<Rightarrow> 'v \<Rightarrow> ('k \<times> 'v) list \<Rightarrow> ('k \<times> 'v) list" where
  "dict_set k v [] = [(k, v)]"
| "dict_set k v (p # ps) = (if fst p = k then (k, v) # ps else p # dict_set k v ps)"

definition dict_of :: "('k \<times> 'v) list \<Rightarrow> ('k \<times> 'v) list" where
  "dict_of kvs = foldl (\<lambda>d (k, v). dict_set k v d) [] kvs"

text \<open>
  Modelled from the spec: \<open>DataFrame.describe().to_dict()\<close> is pandas' code, not under
  src/. The spec has it compute the descriptive statistics per numeric column and
  leave the non-numeric columns out of the mapping, by the standard describe-table
  semantics: a frame with no numeric column is described on all its columns, and a
  frame with no column at all is refused. The statistics of one column are the
  parameter \<open>col_stats\<close>.
\<close>

definition describe ::
  "(column \<Rightarrow> (string \<times> stat_value) list) \<Rightarrow> dataframe \<Rightarrow> py_exception + stats_dict" where
  "describe col_stats df =
     (if columns df = [] then Inl ValueError
      else
        let numeric = filter (\<lambda>c. is_numeric (c_dtype c)) (columns df);
            described = (if numeric = [] then columns df else numeric)
        in Inr (dict_of (map (\<lambda>c. (c_label c, col_stats c)) described)))"

text \<open>\<open>', '.join(df.columns)\<close>: every label must be a string.\<close>

fun str_labels :: "label list \<Rightarrow> py_exception + string list" where
  "str_labels [] = Inr []"
| "str_labels (StrLabel s # ls) =
     (case str_labels ls of Inl e \<Rightarrow> Inl e | Inr ss \<Rightarrow> Inr (s # ss))"
| "str_labels (IntLabel _ # ls) = Inl TypeError"

definition use_case_text :: string where
  "use_case_text =
     ''Based on these insights, predictive analytics models, trend analysis, or dashboards '' @
     ''can be created to drive business or operational improvements.''"

definition analyze_data ::
  "(column \<Rightarrow> (string \<times> stat_value) list) \<Rightarrow> dataframe \<Rightarrow> 'r world \<Rightarrow>
     (string option \<times> string option \<times> stats_dict option \<times> string option) \<times> 'r world" where
  "analyze_data col_stats df w =
     (let summary =
            ''The dataset contains **'' @ str_nat (fst (shape df)) @ '' rows** and **'' @
            str_nat (snd (shape df)) @ '' columns**.''
      in case str_labels (map c_label (columns df)) of
           Inl e \<Rightarrow> ((None, None, None, None), emit (StError ''Error analyzing data: '' e) w)
         | Inr names \<Rightarrow>
             (let insights = ''Key columns: '' @ join '', '' names
              in case describe col_stats df of
                   Inl e \<Rightarrow>
                     ((None, None, None, None), emit (StError ''Error analyzing data: '' e) w)
                 | Inr stats \<Rightarrow>
                     ((Some summary, Some insights, Some stats, Some use_case_text), w)))"

subsection \<open>load_models (lines 21-52)\<close>

text \<open>
  The three acquisitions are made in order; each either yields its handle or raises.
  On the first that raises the handler reports the error and calls \<open>st.stop()\<close>,
  which ends the script run: no tuple of handles comes back.
\<close>

definition load_models ::
  "py_exception + 'tg \<Rightarrow> py_exception + 'cm \<Rightarrow> py_exception + 'cp \<Rightarrow> 'r world \<Rightarrow>
     ('tg \<times> 'cm \<times> 'cp) option \<times> 'r world" where
  "load_models acquire_text_gen acquire_clip_model acquire_clip_processor w =
     (case acquire_text_gen of
        Inl e \<Rightarrow> (None, emit StStop (emit (StError ''Error loading models: '' e) w))
      | Inr text_gen \<Rightarrow>
          (case acquire_clip_model of
             Inl e \<Rightarrow> (None, emit StStop (emit (StError ''Error loading models: '' e) w))
           | Inr clip_model \<Rightarrow>
               (case acquire_clip_processor of
                  Inl e \<Rightarrow> (None, emit StStop (emit (StError ''Error loading models: '' e) w))
                | Inr clip_processor \<Rightarrow> (Some (text_gen, clip_model, clip_processor), w))))"

subsection \<open>The page (lines 152-222)\<close>

datatype mode = Text | Image | CSVData | RandomConcept

text \<open>
  What the widgets deliver in one run of the script: the two sidebar choices, the
  text area, whether the action button of the mode was pressed, the uploads (already
  opened or parsed, which may have raised), and the index the random source would draw.
\<close>

record 'img ui_inputs =
  input_type :: mode
  context_choice :: string
  user_input :: string
  button :: bool
  uploaded_image :: "(py_exception + 'img) option"
  uploaded_csv :: "(py_exception + dataframe) option"
  random_draw :: nat

definition emoji_rocket :: string where
  "emoji_rocket = [CHR 0xF0, CHR 0x9F, CHR 0x9A, CHR 0x80]"

definition emoji_target :: string where
  "emoji_target = [CHR 0xF0, CHR 0x9F, CHR 0x8E, CHR 0xAF]"

definition emoji_magnifier :: string where
  "emoji_magnifier = [CHR 0xF0, CHR 0x9F, CHR 0x94, CHR 0x8D]"

definition emoji_sparkles :: string where
  "emoji_sparkles = [CHR 0xE2, CHR 0x9C, CHR 0xA8]"

definition emoji_chart :: string where
  "emoji_chart = [CHR 0xF0, CHR 0x9F, CHR 0x93, CHR 0x8A]"

definition emoji_bulb :: string where
  "emoji_bulb = [CHR 0xF0, CHR 0x9F, CHR 0x92, CHR 0xA1]"

definition emoji_die :: string where
  "emoji_die = [CHR 0xF0, CHR 0x9F, CHR 0x8E, CHR 0xB2]"

definition emoji_globe :: string where
  "emoji_globe = [CHR 0xF0, CHR 0x9F, CHR 0x8C, CHR 0x8D]"

definition em_dash :: string where
  "em_dash = [CHR 0xE2, CHR 0x80, CHR 0x94]"

text \<open>Lines 168-178. Each mode returns the exception that escaped it, if any.\<close>

definition text_mode ::
  "'r text_generator \<Rightarrow> 'img ui_inputs \<Rightarrow> 'r world \<Rightarrow> py_exception option \<times> 'r world" where
  "text_mode text_generator inp w =
     (if button inp then
        (if strip (user_input inp) \<noteq> [] then
           (case generate_innovation text_generator (user_input inp) (context_choice inp) w of
              (None, w1) \<Rightarrow> (None, w1)
            | (Some output, w1) \<Rightarrow>
                (if output \<noteq> [] then
                   (None, emit (StWrite output)
                            (emit (StSuccess (emoji_target @ '' Innovative Solution:'')) w1))
                 else (None, w1)))
         else (None, emit (StWarning ''Please enter a valid problem statement or idea.'') w))
      else (None, w))"

text \<open>Line 191: one row of the ranking.\<close>

definition concept_row :: "string \<Rightarrow> rat \<Rightarrow> string" where
  "concept_row label score =
     ''- **'' @ capitalize label @ ''** '' @ em_dash @ '' Probability: '' @ format_4f score"

text \<open>Lines 180-196.\<close>

definition image_mode ::
  "'r text_generator \<Rightarrow> (string list \<Rightarrow> 'img \<Rightarrow> py_exception + 'enc) \<Rightarrow>
     ('enc \<Rightarrow> py_exception + rat list) \<Rightarrow> 'img ui_inputs \<Rightarrow> 'r world \<Rightarrow>
     py_exception option \<times> 'r world" where
  "image_mode text_generator clip_processor clip_model inp w =
     (case uploaded_image inp of
        None \<Rightarrow> (None, w)
      | Some (Inl e) \<Rightarrow> (Some e, w)
      | Some (Inr img) \<Rightarrow>
          (let w1 = emit StImage w
           in if button inp then
                (case analyze_image clip_processor clip_model img w1 of
                   (None, w2) \<Rightarrow> (None, w2)
                 | (Some concepts, w2) \<Rightarrow>
                     (if concepts \<noteq> [] then
                        (let w3 = emit (StSuccess (emoji_magnifier @ '' Top Relevant Concepts:'')) w2;
                             w4 = foldl (\<lambda>v (label, score). emit (StWrite (concept_row label score)) v)
                                    w3 concepts;
                             top_concept = fst (hd concepts)
                         in case generate_innovation text_generator (top_concept @ '' innovation'')
                                   (context_choice inp) w4 of
                              (None, w5) \<Rightarrow> (None, w5)
                            | (Some output, w5) \<Rightarrow>
                                (if output \<noteq> [] then
                                   (None, emit (StWrite output)
                                      (emit (StMarkdown (emoji_sparkles @ '' **Generated Idea:**'')) w5))
                                 else (None, w5)))
                      else (None, w2)))
              else (None, w1)))"

text \<open>Lines 198-212.\<close>

definition csv_mode ::
  "(column \<Rightarrow> (string \<times> stat_value) list) \<Rightarrow> 'img ui_inputs \<Rightarrow> 'r world \<Rightarrow>
     py_exception option \<times> 'r world" where
  "csv_mode col_stats inp w =
     (case uploaded_csv inp of
        None \<Rightarrow> (None, w)
      | Some (Inl e) \<Rightarrow> (Some e, w)
      | Some (Inr df) \<Rightarrow>
          (let w1 = emit StDataframe w
           in if button inp then
                (case analyze_data col_stats df w1 of
                   ((Some summary, Some insights, Some stats, Some use_case_str), w2) \<Rightarrow>
                     (if summary \<noteq> [] \<and> insights \<noteq> [] \<and> stats \<noteq> [] \<and> use_case_str \<noteq> [] then
                        (None,
                         emit (StWrite use_case_str)
                           (emit (StMarkdown (emoji_bulb @ '' **Use Case:**''))
                              (emit (StJson stats)
                                 (emit (StWrite insights)
                                    (emit (StWrite summary)
                                       (emit (StSuccess (emoji_chart @ '' Data Insights:'')) w2))))))
                      else (None, w2))
                 | (_, w2) \<Rightarrow> (None, w2))
              else (None, w1)))"

text \<open>Lines 214-219.\<close>

definition random_concept_mode :: "'img ui_inputs \<Rightarrow> 'r world \<Rightarrow> py_exception option \<times> 'r world" where
  "random_concept_mode inp w =
     (if button inp then
        (case generate_random_concept (random_draw inp) of
           Inl e \<Rightarrow> (Some e, w)
         | Inr concept \<Rightarrow>
             (None,
              emit (StWrite (emoji_globe @ '' Use Case: '' @ use_case concept))
                (emit (StWrite (emoji_bulb @ '' Idea: '' @ idea concept))
                   (emit (StMarkdown (emoji_die @ '' **Random Concept:**'')) w))))
      else (None, w))"

datatype outcome = Completed | Stopped | Uncaught py_exception

text \<open>
  One run of the script: the models are loaded (line 52), then the page is drawn and
  the selected mode is served. A run that \<open>st.stop()\<close> ended draws nothing more.
\<close>

definition run_script ::
  "py_exception + 'r text_generator \<Rightarrow> py_exception + ('enc \<Rightarrow> py_exception + rat list) \<Rightarrow>
     py_exception + (string list \<Rightarrow> 'img \<Rightarrow> py_exception + 'enc) \<Rightarrow>
     (column \<Rightarrow> (string \<times> stat_value) list) \<Rightarrow> 'img ui_inputs \<Rightarrow> 'r world \<Rightarrow>
     outcome \<times> 'r world" where
  "run_script acquire_text_gen acquire_clip_model acquire_clip_processor col_stats inp w =
     (case load_models acquire_text_gen acquire_clip_model acquire_clip_processor w of
        (None, w1) \<Rightarrow> (Stopped, w1)
      | (Some (text_generator, clip_model, clip_processor), w1) \<Rightarrow>
          (let w2 = emit (StMarkdown
                      ''Unleash the power of **AI-generated solutions** for real-world problems.'')
                      (emit (StTitle (emoji_rocket @ '' AI Innovation Generator'')) w1);
               (escaped, w3) =
                 (case input_type inp of
                    Text \<Rightarrow> text_mode text_generator inp w2
                  | Image \<Rightarrow> image_mode text_generator clip_processor clip_model inp w2
                  | CSVData \<Rightarrow> csv_mode col_stats inp w2
                  | RandomConcept \<Rightarrow> random_concept_mode inp w2)
           in case escaped of
                Some e \<Rightarrow> (Uncaught e, w3)
              | None \<Rightarrow>
                  (Completed,
                   emit (StCaption
                     ''Powered by Hugging Face Transformers, CLIP, and Streamlit. Built for meaningful innovations!'')
                     (emit (StWrite ''---'') w3))))"

subsection \<open>Example inputs\<close>

text \<open>
  A probability vector with ties, a processor and a model that deliver it, a text
  generator that echoes the prompt and continues it, and one that raises.
\<close>

definition example_probs :: "rat list" where
  "example_probs = [1/8, 1/4, 1/16, 1/4, 1/32, 1/32, 1/8, 1/16, 1/32, 1/32]"

definition example_processor :: "string list \<Rightarrow> unit \<Rightarrow> py_exception + string list" where
  "example_processor vocab img = Inr vocab"

definition example_model :: "string list \<Rightarrow> py_exception + rat list" where
  "example_model inputs = Inr example_probs"

definition echo_generator :: "nat text_generator" where
  "echo_generator call seed =
     (Inr [[(''generated_text'', gc_prompt call @ '' Deploy river nets. '')]], Suc seed)"


text \<open>
  A statistics function that only counts, a table of 5 rows and 3 columns, a table
  with one numeric and one text column, and the widgets of a run in Image mode.
\<close>

definition example_col_stats :: "column \<Rightarrow> (string \<times> stat_value) list" where
  "example_col_stats c = [(''count'', Num (of_nat (length (c_values c))))]"

definition example_df :: dataframe where
  "example_df =
     \<lparr>nrows = 5,
      columns =
        [\<lparr>c_label = StrLabel ''name'', c_dtype = Object,
          c_values = map TxtCell [''a'', ''b'', ''c'', ''d'', ''e'']\<rparr>,
         \<lparr>c_label = StrLabel ''age'', c_dtype = Int64,
          c_values = map NumCell [31, 42, 27, 55, 38]\<rparr>,
         \<lparr>c_label = StrLabel ''score'', c_dtype = Float64,
          c_values = map NumCell [1 / 2, 3 / 4, 1 / 4, 1, 0]\<rparr>]\<rparr>"

definition example_mixed_df :: dataframe where
  "example_mixed_df =
     \<lparr>nrows = 2,
      columns =
        [\<lparr>c_label = StrLabel ''age'', c_dtype = Int64, c_values = map NumCell [31, 42]\<rparr>,
         \<lparr>c_label = StrLabel ''name'', c_dtype = Object, c_values = map TxtCell [''a'', ''b'']\<rparr>]\<rparr>"

definition example_inputs :: "unit ui_inputs" where
  "example_inputs =
     \<lparr>input_type = Image, context_choice = ''Healthcare'', user_input = [], button = True,
      uploaded_image = Some (Inr ()), uploaded_csv = None, random_draw = 0\<rparr>"



section \<open>Theorems\<close>

text \<open>
  C1: the picker is claimed to return one of the five fixed entries on every call and
  never to raise. The module never imports \<open>random\<close>, so every call raises NameError
  before an entry is chosen, whatever the random source would have drawn.
\<close>

theorem generate_random_concept_raises:
  "generate_random_concept draw = Inl (NameError ''random'')"
  by (simp add: generate_random_concept_def resolve_global_def module_imports_def
      module_bindings_def)

subsection \<open>Helper lemmas\<close>


lemma events_emit: "events (emit e w) = events w @ [e]"
  by (simp add: emit_def)

lemma rng_emit: "rng (emit e w) = rng w"
  by (simp add: emit_def)

lemma strip_nonempty:
  assumes "c \<in> set s" and "\<not> is_space c"
  shows "strip s \<noteq> []"
proof -
  from assms have d: "dropWhile is_space s \<noteq> []"
    by auto
  then have "\<not> is_space (hd (dropWhile is_space s))"
    by (rule hd_dropWhile)
  moreover from d have "hd (dropWhile is_space s) \<in> set (rev (dropWhile is_space s))"
    by simp
  ultimately have "dropWhile is_space (rev (dropWhile is_space s)) \<noteq> []"
    by (auto simp del: set_rev)
  then show ?thesis by (simp add: strip_def)
qed

lemma strip_prompt_prefix:
  assumes "prefix (structured_prompt p c) t"
  shows "strip t \<noteq> []"
proof -
  from assms obtain rest where "t = structured_prompt p c @ rest"
    by (auto simp: prefix_def)
  then have "CHR ''C'' \<in> set t"
    by (simp add: structured_prompt_def)
  moreover have "\<not> is_space CHR ''C''"
    by (simp add: is_space_def whitespace_def)
  ultimately show ?thesis by (rule strip_nonempty)
qed


lemma sorted_reverse_mset: "mset (sorted_reverse key xs) = mset xs"
  by (simp add: sorted_reverse_def)

lemma sorted_reverse_length: "length (sorted_reverse key xs) = length xs"
  by (simp add: sorted_reverse_def)

lemma sorted_reverse_set: "set (sorted_reverse key xs) = set xs"
  by (simp add: sorted_reverse_def)

lemma sorted_reverse_descending:
  "sorted_wrt (\<lambda>a b. key a \<ge> key b) (sorted_reverse key xs)"
proof -
  have "sorted (map key (sort_key key (rev xs)))" by simp
  then have "sorted_wrt (\<lambda>a b. key a \<le> key b) (sort_key key (rev xs))"
    by (simp add: sorted_map)
  then show ?thesis
    by (simp add: sorted_reverse_def sorted_wrt_rev)
qed

lemma sorted_reverse_stable:
  "filter (\<lambda>x. key x = k) (sorted_reverse key xs) = filter (\<lambda>x. key x = k) xs"
proof -
  have "filter (\<lambda>x. key x = k) (sorted_reverse key xs) =
        rev (filter (\<lambda>x. key x = k) (sort_key key (rev xs)))"
    by (simp add: sorted_reverse_def rev_filter)
  also have "\<dots> = rev (filter (\<lambda>x. key x = k) (rev xs))"
    by (simp only: sort_key_stable)
  also have "\<dots> = filter (\<lambda>x. key x = k) xs"
    by (simp add: rev_filter)
  finally show ?thesis .
qed

lemma sorted_wrt_filter_nth:
  assumes "sorted_wrt R (filter P xs)" and "i < j" and "j < length xs"
    and "P (xs ! i)" and "P (xs ! j)"
  shows "R (xs ! i) (xs ! j)"
proof -
  have split: "xs = take j xs @ drop j xs" by simp
  have "sorted_wrt R (filter P (take j xs) @ filter P (drop j xs))"
    using assms(1) by (metis split filter_append)
  then have all: "\<forall>x\<in>set (filter P (take j xs)). \<forall>y\<in>set (filter P (drop j xs)). R x y"
    by (simp add: sorted_wrt_append)
  have "xs ! i \<in> set (take j xs)"
    using assms(2,3)
    by (metis in_set_conv_nth length_take min_less_iff_conj nth_take order_less_trans)
  moreover have "xs ! j \<in> set (drop j xs)"
    using assms(3) by (metis Cons_nth_drop_Suc list.set_intros(1))
  ultimately show ?thesis using all assms(4,5) by simp
qed

lemma index_of_nth: "distinct xs \<Longrightarrow> i < length xs \<Longrightarrow> index_of (xs ! i) xs = i"
proof (induction xs arbitrary: i)
  case Nil
  then show ?case by simp
next
  case (Cons y ys)
  then show ?case by (cases i) auto
qed

lemma zip_sorted_by_index:
  assumes "distinct xs"
  shows "sorted_wrt (\<lambda>a b. index_of (fst a) xs < index_of (fst b) xs) (zip xs ps)"
  unfolding sorted_wrt_iff_nth_less
proof (intro allI impI)
  fix i j
  assume "i < j" and "j < length (zip xs ps)"
  then have "i < length xs" "j < length xs" "i < length ps" "j < length ps"
    by simp_all
  with assms \<open>i < j\<close> show
    "index_of (fst (zip xs ps ! i)) xs < index_of (fst (zip xs ps ! j)) xs"
    by (simp add: index_of_nth)
qed

lemma sorted_reverse_zip_ranked:
  assumes "distinct vocab"
  shows "sorted_wrt (ranked_before vocab) (sorted_reverse snd (zip vocab ps))"
  unfolding sorted_wrt_iff_nth_less
proof (intro allI impI)
  fix i j
  let ?full = "sorted_reverse snd (zip vocab ps)"
  assume ij: "i < j" and j: "j < length ?full"
  have "sorted_wrt (\<lambda>a b. snd a \<ge> snd b) ?full"
    by (rule sorted_reverse_descending)
  with ij j have ge: "snd (?full ! i) \<ge> snd (?full ! j)"
    by (simp add: sorted_wrt_iff_nth_less)
  show "ranked_before vocab (?full ! i) (?full ! j)"
  proof (cases "snd (?full ! i) = snd (?full ! j)")
    case False
    with ge show ?thesis by (simp add: ranked_before_def)
  next
    case True
    let ?k = "snd (?full ! j)"
    let ?R = "\<lambda>a b. index_of (fst a) vocab < index_of (fst b) vocab"
    have "sorted_wrt ?R (filter (\<lambda>x. snd x = ?k) (zip vocab ps))"
      using assms by (intro sorted_wrt_filter zip_sorted_by_index)
    then have "sorted_wrt ?R (filter (\<lambda>x. snd x = ?k) ?full)"
      by (simp only: sorted_reverse_stable)
    then have "?R (?full ! i) (?full ! j)"
      using ij j True by (rule sorted_wrt_filter_nth) simp_all
    with True show ?thesis by (simp add: ranked_before_def)
  qed
qed

lemma distinct_concepts_vocab: "distinct concepts_vocab"
  by (simp add: concepts_vocab_def)

lemma length_concepts_vocab: "length concepts_vocab = 10"
  by (simp add: concepts_vocab_def)

lemma dict_set_keys: "fst ` set (dict_set k v d) = insert k (fst ` set d)"
  by (induction d) auto

lemma dict_set_distinct: "distinct (map fst d) \<Longrightarrow> distinct (map fst (dict_set k v d))"
proof (induction d)
  case Nil
  then show ?case by simp
next
  case (Cons p d)
  show ?case
  proof (cases "fst p = k")
    case True
    with Cons.prems show ?thesis by simp
  next
    case False
    have "set (map fst (dict_set k v d)) = insert k (fst ` set d)"
      using dict_set_keys [of k v d] by simp
    with False Cons show ?thesis by auto
  qed
qed

lemma dict_of_fold_keys:
  "fst ` set (foldl (\<lambda>d (k, v). dict_set k v d) d0 kvs) = fst ` set d0 \<union> fst ` set kvs"
proof (induction kvs arbitrary: d0)
  case Nil
  then show ?case by simp
next
  case (Cons kv kvs)
  obtain k v where kv: "kv = (k, v)" by (cases kv)
  have "fst ` set (foldl (\<lambda>d (k, v). dict_set k v d) (dict_set k v d0) kvs) =
        fst ` set (dict_set k v d0) \<union> fst ` set kvs"
    by (rule Cons.IH)
  then show ?case
    by (simp add: kv dict_set_keys)
qed

lemma dict_of_fold_distinct:
  "distinct (map fst d0) \<Longrightarrow> distinct (map fst (foldl (\<lambda>d (k, v). dict_set k v d) d0 kvs))"
  by (induction kvs arbitrary: d0) (auto simp: dict_set_distinct split: prod.splits)

lemma dict_of_keys: "fst ` set (dict_of kvs) = fst ` set kvs"
  by (simp add: dict_of_def dict_of_fold_keys)

lemma dict_of_distinct: "distinct (map fst (dict_of kvs))"
  by (simp add: dict_of_def dict_of_fold_distinct)

lemma dict_of_single: "dict_of [(k, v)] = [(k, v)]"
  by (simp add: dict_of_def)

lemma str_labels_Inr: "str_labels ls = Inr names \<Longrightarrow> ls = map StrLabel names"
  by (induction ls arbitrary: names rule: str_labels.induct) (auto split: sum.splits)

lemma digit_char_index: "d < 10 \<Longrightarrow> index_of (digit_char d) ''0123456789'' = d"
  unfolding digit_char_def by (rule index_of_nth) simp_all

lemma digits_value_snoc:
  "digits_value (s @ [c]) = 10 * digits_value s + index_of c ''0123456789''"
  by (simp add: digits_value_def)

lemma str_nat_value: "digits_value (str_nat n) = n"
proof (induction n rule: str_nat.induct)
  case (1 n)
  show ?case
  proof (cases "n < 10")
    case True
    then show ?thesis
      by (subst str_nat.simps) (simp add: digits_value_def digit_char_index del: index_of.simps)
  next
    case False
    with 1 have "digits_value (str_nat (n div 10)) = n div 10" by simp
    with False show ?thesis
      by (subst str_nat.simps) (simp add: digits_value_snoc digit_char_index del: index_of.simps)
  qed
qed

lemma digit_char_is_digit: "d < 10 \<Longrightarrow> is_digit (digit_char d)"
  unfolding is_digit_def digit_char_def by (rule nth_mem) simp

lemma str_nat_digits: "list_all is_digit (str_nat n)"
proof (induction n rule: str_nat.induct)
  case (1 n)
  show ?case
  proof (cases "n < 10")
    case True
    then have "str_nat n = [digit_char n]" by (subst str_nat.simps) simp
    with True show ?thesis by (simp add: digit_char_is_digit)
  next
    case False
    then have s: "str_nat n = str_nat (n div 10) @ [digit_char (n mod 10)]"
      by (subst str_nat.simps) simp
    from False 1 have "list_all is_digit (str_nat (n div 10))" by simp
    moreover have "is_digit (digit_char (n mod 10))"
      by (rule digit_char_is_digit) simp
    ultimately show ?thesis by (simp add: s)
  qed
qed

lemma str_nat_length: "0 < k \<Longrightarrow> n < 10 ^ k \<Longrightarrow> length (str_nat n) \<le> k"
proof (induction k arbitrary: n)
  case 0
  then show ?case by simp
next
  case (Suc k)
  show ?case
  proof (cases "n < 10")
    case True
    then have "str_nat n = [digit_char n]" by (subst str_nat.simps) simp
    then show ?thesis by simp
  next
    case False
    then have s: "str_nat n = str_nat (n div 10) @ [digit_char (n mod 10)]"
      by (subst str_nat.simps) simp
    from False Suc.prems have k: "0 < k" by (cases k) auto
    from Suc.prems have "n < 10 * 10 ^ k" by simp
    then have "n div 10 < 10 ^ k" by simp
    with k have "length (str_nat (n div 10)) \<le> k" by (rule Suc.IH)
    then show ?thesis by (simp add: s)
  qed
qed

lemma zero_pad_length: "length s \<le> width \<Longrightarrow> length (zero_pad width s) = width"
  by (simp add: zero_pad_def)

lemma zero_pad_digits: "list_all is_digit s \<Longrightarrow> list_all is_digit (zero_pad width s)"
proof -
  assume a: "list_all is_digit s"
  have "is_digit CHR ''0''" by (simp add: is_digit_def)
  then have "list_all is_digit (replicate (width - length s) CHR ''0'')"
    by (simp add: list_all_iff)
  with a show ?thesis by (simp add: zero_pad_def)
qed

lemma format_4f_shape:
  "\<exists>ip fp. format_4f x = ip @ ''.'' @ fp \<and> length fp = 4 \<and> list_all is_digit fp \<and>
           list_all (\<lambda>c. is_digit c \<or> c = CHR ''-'') ip"
proof -
  define n where "n = nat (round_half_even (\<bar>x\<bar> * 10000))"
  define ip where "ip = (if x < 0 then ''-'' else []) @ str_nat (n div 10000)"
  define fp where "fp = zero_pad 4 (str_nat (n mod 10000))"
  have f: "format_4f x = ip @ ''.'' @ fp"
    by (simp add: format_4f_def n_def ip_def fp_def Let_def)
  have "length (str_nat (n mod 10000)) \<le> 4"
    by (rule str_nat_length) simp_all
  then have l: "length fp = 4" unfolding fp_def by (rule zero_pad_length)
  have d: "list_all is_digit fp"
    unfolding fp_def by (rule zero_pad_digits) (rule str_nat_digits)
  have "list_all (\<lambda>c. is_digit c \<or> c = CHR ''-'') (str_nat (n div 10000))"
    using str_nat_digits [of "n div 10000"] by (simp add: list_all_iff)
  then have i: "list_all (\<lambda>c. is_digit c \<or> c = CHR ''-'') ip"
    by (simp add: ip_def)
  from f l d i show ?thesis by blast
qed

lemma format_4f_no_percent: "CHR ''%'' \<notin> set (format_4f x)"
proof -
  obtain ip fp where f: "format_4f x = ip @ ''.'' @ fp"
    and d: "list_all is_digit fp" and i: "list_all (\<lambda>c. is_digit c \<or> c = CHR ''-'') ip"
    using format_4f_shape by blast
  have np: "\<not> is_digit CHR ''%''" by (simp add: is_digit_def)
  from d np have "CHR ''%'' \<notin> set fp" by (auto simp: list_all_iff)
  moreover from i np have "CHR ''%'' \<notin> set ip" by (auto simp: list_all_iff)
  ultimately show ?thesis by (simp add: f)
qed

lemma events_foldl_rows:
  "events (foldl (\<lambda>v (label, score). emit (StWrite (concept_row label score)) v) w cs) =
     events w @ map (\<lambda>(label, score). StWrite (concept_row label score)) cs"
proof (induction cs arbitrary: w)
  case Nil
  then show ?case by simp
next
  case (Cons c cs)
  obtain l s where c: "c = (l, s)" by (cases c)
  show ?case by (simp add: c Cons.IH events_emit)
qed

lemma generate_innovation_events_extend:
  "\<exists>rest. events (snd (generate_innovation tg p c w)) = events w @ rest"
  by (simp add: generate_innovation_def Let_def events_emit split: prod.splits sum.splits)

lemma format_4f_examples:
  "format_4f (1 / 4) = ''0.2500''" "format_4f (1 / 8) = ''0.1250''"
  by (simp_all add: format_4f_def round_half_even_def str_nat.simps digit_char_def zero_pad_def)

lemma concept_row_examples:
  "concept_row ''education'' (1 / 4) = ''- **Education** '' @ em_dash @ '' Probability: 0.2500''"
  "concept_row ''robotics'' (1 / 4) = ''- **Robotics** '' @ em_dash @ '' Probability: 0.2500''"
  "concept_row ''healthcare'' (1 / 8) = ''- **Healthcare** '' @ em_dash @ '' Probability: 0.1250''"
  by (simp_all add: concept_row_def format_4f_examples upper_char_def lower_char_def
      ascii_lowercase_def ascii_uppercase_def)

lemma analyze_image_example:
  "analyze_image example_processor example_model () w =
     (Some [(''education'', 1 / 4), (''robotics'', 1 / 4), (''healthcare'', 1 / 8)], w)"
  by (simp add: analyze_image_def example_processor_def example_model_def concepts_vocab_def
      example_probs_def sorted_reverse_def)

lemma echo_generator_example:
  "generate_innovation echo_generator p c w =
     (Some (strip (structured_prompt p c @ '' Deploy river nets. '')),
      emit (TextGenCall (generation_request p c)) w\<lparr>rng := Suc (rng w)\<rparr>)"
  by (simp add: generate_innovation_def echo_generator_def Let_def first_generated_text_def
      generation_request_def rng_emit)

lemma strip_echo_example:
  "strip (structured_prompt p c @ '' Deploy river nets. '') =
     structured_prompt p c @ '' Deploy river nets.''"
  by (simp add: strip_def is_space_def whitespace_def structured_prompt_def)

subsection \<open>The image concept ranker\<close>

text \<open>
  C2: whenever the processor and the model succeed and the model delivers one
  probability per vocabulary entry, \<open>analyze_image\<close> returns exactly three pairs, the
  first three of a list that holds every (label, probability) pair once, whose labels
  are vocabulary entries, in descending order of probability, equal probabilities in
  the order of the vocabulary.
\<close>

theorem analyze_image_top3:
  assumes "clip_processor concepts_vocab img = Inr inputs"
    and "clip_model inputs = Inr probs"
    and "length probs = length concepts_vocab"
  shows "\<exists>full. fst (analyze_image clip_processor clip_model img w) = Some (take 3 full) \<and>
           length (take 3 full) = 3 \<and>
           fst ` set (take 3 full) \<subseteq> set concepts_vocab \<and>
           mset full = mset (zip concepts_vocab probs) \<and>
           sorted_wrt (\<lambda>a b. snd a \<ge> snd b) full \<and>
           sorted_wrt (ranked_before concepts_vocab) full"
proof (intro exI conjI)
  let ?full = "sorted_reverse snd (zip concepts_vocab probs)"
  show "fst (analyze_image clip_processor clip_model img w) = Some (take 3 ?full)"
    using assms(1,2) by (simp add: analyze_image_def)
  show "length (take 3 ?full) = 3"
    using assms(3) by (simp add: sorted_reverse_length length_concepts_vocab)
  show "fst ` set (take 3 ?full) \<subseteq> set concepts_vocab"
  proof
    fix l assume "l \<in> fst ` set (take 3 ?full)"
    then obtain x where "x \<in> set (take 3 ?full)" and "l = fst x" by auto
    then have "x \<in> set (zip concepts_vocab probs)"
      using set_take_subset sorted_reverse_set by fastforce
    with \<open>l = fst x\<close> show "l \<in> set concepts_vocab"
      by (metis prod.collapse set_zip_leftD)
  qed
  show "mset ?full = mset (zip concepts_vocab probs)"
    by (rule sorted_reverse_mset)
  show "sorted_wrt (\<lambda>a b. snd a \<ge> snd b) ?full"
    by (rule sorted_reverse_descending)
  show "sorted_wrt (ranked_before concepts_vocab) ?full"
    by (rule sorted_reverse_zip_ranked [OF distinct_concepts_vocab])
qed

theorem analyze_image_top3_witness:
  "example_processor concepts_vocab () = Inr concepts_vocab \<and>
   example_model concepts_vocab = Inr example_probs \<and>
   length example_probs = length concepts_vocab \<and>
   fst (analyze_image example_processor example_model () \<lparr>events = [], rng = ()\<rparr>) =
     Some [(''education'', 1 / 4), (''robotics'', 1 / 4), (''healthcare'', 1 / 8)] \<and>
   (\<exists>full. fst (analyze_image example_processor example_model ()
                  \<lparr>events = [], rng = ()\<rparr>) = Some (take 3 full) \<and>
           length (take 3 full) = 3 \<and>
           fst ` set (take 3 full) \<subseteq> set concepts_vocab \<and>
           mset full = mset (zip concepts_vocab example_probs) \<and>
           sorted_wrt (\<lambda>a b. snd a \<ge> snd b) full \<and>
           sorted_wrt (ranked_before concepts_vocab) full)"
proof -
  have h1: "example_processor concepts_vocab () = Inr concepts_vocab"
    by (simp add: example_processor_def)
  have h2: "example_model concepts_vocab = Inr example_probs"
    by (simp add: example_model_def)
  have h3: "length example_probs = length concepts_vocab"
    by (simp add: example_probs_def concepts_vocab_def)
  have ex: "fst (analyze_image example_processor example_model () \<lparr>events = [], rng = ()\<rparr>) =
     Some [(''education'', 1 / 4), (''robotics'', 1 / 4), (''healthcare'', 1 / 8)]"
    by (simp add: analyze_image_def example_processor_def example_model_def concepts_vocab_def
        example_probs_def sorted_reverse_def)
  from h1 h2 h3 ex
    analyze_image_top3 [of example_processor "()" concepts_vocab example_model example_probs
      "\<lparr>events = [], rng = ()\<rparr>", OF h1 h2 h3]
  show ?thesis by blast
qed

subsection \<open>The innovation generator\<close>






subsection \<open>The tabular summarizer\<close>

text \<open>
  C6: whenever \<open>analyze_data\<close> succeeds, the summary sentence carries the decimal
  numerals of the number of rows and of the number of columns of the table's shape,
  the insights list the column names in their original order separated by commas, and
  the fourth component is the fixed advisory sentence about predictive analytics and
  dashboards.
\<close>

theorem analyze_data_summary:
  assumes "fst (analyze_data col_stats df w) = (Some summary, Some insights, Some stats, Some advice)"
  shows "shape df = (nrows df, length (columns df)) \<and>
         digits_value (str_nat (nrows df)) = nrows df \<and>
         digits_value (str_nat (length (columns df))) = length (columns df) \<and>
         summary = ''The dataset contains **'' @ str_nat (nrows df) @ '' rows** and **'' @
                   str_nat (length (columns df)) @ '' columns**.'' \<and>
         (\<exists>names. map c_label (columns df) = map StrLabel names \<and>
                  insights = ''Key columns: '' @ join '', '' names) \<and>
         advice = ''Based on these insights, predictive analytics models, trend analysis, or dashboards can be created to drive business or operational improvements.''"
  using assms
  by (auto simp: analyze_data_def shape_def Let_def use_case_text_def str_nat_value
      split: sum.splits dest: str_labels_Inr)

theorem analyze_data_summary_witness:
  "fst (analyze_data example_col_stats example_df \<lparr>events = [], rng = ()\<rparr>) =
     (Some ''The dataset contains **5 rows** and **3 columns**.'',
      Some ''Key columns: name, age, score'',
      Some [(StrLabel ''age'', [(''count'', Num 5)]), (StrLabel ''score'', [(''count'', Num 5)])],
      Some use_case_text) \<and>
   shape example_df = (5, 3) \<and>
   (\<exists>names. map c_label (columns example_df) = map StrLabel names \<and>
            ''Key columns: name, age, score'' = ''Key columns: '' @ join '', '' names)"
proof -
  have h: "fst (analyze_data example_col_stats example_df \<lparr>events = [], rng = ()\<rparr>) =
     (Some ''The dataset contains **5 rows** and **3 columns**.'',
      Some ''Key columns: name, age, score'',
      Some [(StrLabel ''age'', [(''count'', Num 5)]), (StrLabel ''score'', [(''count'', Num 5)])],
      Some use_case_text)"
    by (simp add: analyze_data_def example_df_def example_col_stats_def shape_def Let_def
        str_nat.simps digit_char_def describe_def is_numeric_def dict_of_def)
  have n: "nrows example_df = 5" "length (columns example_df) = 3"
    by (simp_all add: example_df_def)
  from analyze_data_summary [OF h] h n show ?thesis by simp
qed

text \<open>
  C7: for a table with at least one numeric column on which \<open>analyze_data\<close>
  succeeds, the keys of the statistics mapping are exactly the labels of the numeric
  columns, each once; a table with a single numeric column beside text columns gives a
  mapping of size 1.
\<close>

theorem analyze_data_numeric_only:
  assumes "fst (analyze_data col_stats df w) = (Some summary, Some insights, Some stats, Some advice)"
    and "filter (\<lambda>c. is_numeric (c_dtype c)) (columns df) \<noteq> []"
  shows "fst ` set stats = c_label ` {c \<in> set (columns df). is_numeric (c_dtype c)} \<and>
         distinct (map fst stats) \<and>
         (length (filter (\<lambda>c. is_numeric (c_dtype c)) (columns df)) = 1 \<longrightarrow> length stats = 1)"
proof -
  let ?num = "filter (\<lambda>c. is_numeric (c_dtype c)) (columns df)"
  from assms have st: "stats = dict_of (map (\<lambda>c. (c_label c, col_stats c)) ?num)"
    by (auto simp: analyze_data_def describe_def Let_def split: sum.splits if_splits)
  have keys: "fst ` set stats = c_label ` {c \<in> set (columns df). is_numeric (c_dtype c)}"
    unfolding st dict_of_keys by force
  have one: "length ?num = 1 \<longrightarrow> length stats = 1"
  proof
    assume "length ?num = 1"
    then obtain c where "?num = [c]"
      by (cases ?num) auto
    then show "length stats = 1"
      unfolding st by (simp add: dict_of_single)
  qed
  from keys one show ?thesis
    unfolding st by (simp add: dict_of_distinct)
qed

theorem analyze_data_numeric_only_witness:
  "fst (analyze_data example_col_stats example_mixed_df \<lparr>events = [], rng = ()\<rparr>) =
     (Some ''The dataset contains **2 rows** and **2 columns**.'',
      Some ''Key columns: age, name'',
      Some [(StrLabel ''age'', [(''count'', Num 2)])],
      Some use_case_text) \<and>
   filter (\<lambda>c. is_numeric (c_dtype c)) (columns example_mixed_df) \<noteq> [] \<and>
   fst ` set [(StrLabel ''age'', [(''count'', Num 2)])] =
     c_label ` {c \<in> set (columns example_mixed_df). is_numeric (c_dtype c)} \<and>
   length [(StrLabel ''age'', [(''count'', Num (2::rat))])] = 1"
proof -
  have h: "fst (analyze_data example_col_stats example_mixed_df \<lparr>events = [], rng = ()\<rparr>) =
     (Some ''The dataset contains **2 rows** and **2 columns**.'',
      Some ''Key columns: age, name'',
      Some [(StrLabel ''age'', [(''count'', Num 2)])],
      Some use_case_text)"
    by (simp add: analyze_data_def example_mixed_df_def example_col_stats_def shape_def Let_def
        str_nat.simps digit_char_def describe_def is_numeric_def dict_of_def)
  have f: "filter (\<lambda>c. is_numeric (c_dtype c)) (columns example_mixed_df) \<noteq> []"
    by (simp add: example_mixed_df_def is_numeric_def)
  from analyze_data_numeric_only [OF h f] h f show ?thesis by simp
qed

text \<open>
  C10: \<open>analyze_data\<close> returns either four values, leaving the page untouched, or
  four times None together with one error message; no result mixes the two.
\<close>

theorem analyze_data_all_or_nothing:
  "(\<exists>summary insights stats advice.
      analyze_data col_stats df w = ((Some summary, Some insights, Some stats, Some advice), w)) \<or>
   (\<exists>e. analyze_data col_stats df w =
      ((None, None, None, None), emit (StError ''Error analyzing data: '' e) w))"
  by (auto simp: analyze_data_def Let_def split: sum.splits)

subsection \<open>The model loader\<close>

text \<open>
  C9: if any of the three acquisitions raises, \<open>load_models\<close> reports the error
  and stops, and the run of the script ends there, before the page is drawn or a mode
  is served; handles come back only when all three acquisitions succeeded.
\<close>

theorem load_models_fatal:
  "(acquire_text_gen = Inl e \<or> acquire_clip_model = Inl e \<or> acquire_clip_processor = Inl e \<longrightarrow>
      (\<exists>e'. load_models acquire_text_gen acquire_clip_model acquire_clip_processor w =
               (None, emit StStop (emit (StError ''Error loading models: '' e') w)) \<and>
             run_script acquire_text_gen acquire_clip_model acquire_clip_processor col_stats inp w =
               (Stopped, emit StStop (emit (StError ''Error loading models: '' e') w)))) \<and>
   (\<forall>t m p. fst (load_models acquire_text_gen acquire_clip_model acquire_clip_processor w) =
               Some (t, m, p) \<longleftrightarrow>
             acquire_text_gen = Inr t \<and> acquire_clip_model = Inr m \<and> acquire_clip_processor = Inr p)"
  by (auto simp: load_models_def run_script_def split: sum.splits)

theorem load_models_fatal_witness:
  "run_script (Inr echo_generator) (Inl (External ''connection refused''))
      (Inr example_processor) example_col_stats example_inputs \<lparr>events = [], rng = 0\<rparr> =
     (Stopped,
      \<lparr>events = [StError ''Error loading models: '' (External ''connection refused''), StStop],
       rng = 0\<rparr>) \<and>
   (\<exists>e'. load_models (Inr echo_generator)
            (Inl (External ''connection refused'') :: py_exception + (string list \<Rightarrow> py_exception + rat list))
            (Inr example_processor) \<lparr>events = [], rng = 0::nat\<rparr> =
            (None, emit StStop (emit (StError ''Error loading models: '' e') \<lparr>events = [], rng = 0\<rparr>)))"
proof -
  have ev: "run_script (Inr echo_generator) (Inl (External ''connection refused''))
      (Inr example_processor) example_col_stats example_inputs \<lparr>events = [], rng = 0\<rparr> =
     (Stopped,
      \<lparr>events = [StError ''Error loading models: '' (External ''connection refused''), StStop],
       rng = 0\<rparr>)"
    by (simp add: run_script_def load_models_def emit_def)
  from load_models_fatal [of "Inr echo_generator" "External ''connection refused''"
      "Inl (External ''connection refused'')" "Inr example_processor"
      "\<lparr>events = [], rng = 0\<rparr>" example_col_stats example_inputs] ev
  show ?thesis by blast
qed

subsection \<open>The page in Image mode\<close>

text \<open>
  C5, as amended: in Image mode, after a successful ranking, the page shows the
  uploaded image, a success header and then the three ranked rows in order, each
  made of the capitalized label and the probability printed in fixed-point notation
  with four digits after the point (the format \<open>.4f\<close>); no row carries a percent
  sign. The claim as stated, that the rows are formatted as percentages, fails: a
  probability of one quarter is shown as 0.2500, not as 25.00%.
\<close>

theorem image_mode_renders_rows:
  assumes "uploaded_image inp = Some (Inr img)" and "button inp"
    and "clip_processor concepts_vocab img = Inr inputs"
    and "clip_model inputs = Inr probs"
    and "length probs = length concepts_vocab"
  shows "\<exists>top3 rest.
           fst (analyze_image clip_processor clip_model img (emit StImage w)) = Some top3 \<and>
           length top3 = 3 \<and>
           events (snd (image_mode tg clip_processor clip_model inp w)) =
             events w @ [StImage, StSuccess (emoji_magnifier @ '' Top Relevant Concepts:'')] @
             map (\<lambda>(label, score).
                    StWrite (''- **'' @ capitalize label @ ''** '' @ em_dash @
                             '' Probability: '' @ format_4f score)) top3 @ rest \<and>
           (\<forall>(label, score) \<in> set top3.
              (\<exists>ip fp. format_4f score = ip @ ''.'' @ fp \<and> length fp = 4 \<and>
                       list_all is_digit fp) \<and>
              CHR ''%'' \<notin> set (format_4f score))"
proof -
  define top3 where "top3 = take 3 (sorted_reverse snd (zip concepts_vocab probs))"
  define w1 where "w1 = emit StImage w"
  define w3 where "w3 = emit (StSuccess (emoji_magnifier @ '' Top Relevant Concepts:'')) w1"
  define w4 where
    "w4 = foldl (\<lambda>v (label, score). emit (StWrite (concept_row label score)) v) w3 top3"
  have a: "analyze_image clip_processor clip_model img w1 = (Some top3, w1)"
    using assms(3,4) by (simp add: analyze_image_def top3_def)
  have len: "length top3 = 3"
    using assms(5) by (simp add: top3_def sorted_reverse_length length_concepts_vocab)
  then have ne: "top3 \<noteq> []" by auto
  have ev4: "events w4 =
      events w @ [StImage, StSuccess (emoji_magnifier @ '' Top Relevant Concepts:'')] @
      map (\<lambda>(label, score). StWrite (concept_row label score)) top3"
    by (simp add: w4_def w3_def w1_def events_foldl_rows events_emit)
  obtain out w5 where g: "generate_innovation tg (fst (hd top3) @ '' innovation'')
        (context_choice inp) w4 = (out, w5)"
    by (cases "generate_innovation tg (fst (hd top3) @ '' innovation'') (context_choice inp) w4")
  obtain r1 where r1: "events w5 = events w4 @ r1"
    using generate_innovation_events_extend
      [of tg "fst (hd top3) @ '' innovation''" "context_choice inp" w4] g by auto
  have im: "image_mode tg clip_processor clip_model inp w =
      (case out of
         None \<Rightarrow> (None, w5)
       | Some output \<Rightarrow>
           (if output \<noteq> [] then
              (None, emit (StWrite output)
                 (emit (StMarkdown (emoji_sparkles @ '' **Generated Idea:**'')) w5))
            else (None, w5)))"
    using assms(1,2) a ne g
    by (simp add: image_mode_def Let_def w1_def [symmetric] w3_def [symmetric]
        w4_def [symmetric])
  have "\<exists>r2. events (snd (image_mode tg clip_processor clip_model inp w)) = events w5 @ r2"
    by (cases out) (simp_all add: im events_emit)
  then obtain r2 where "events (snd (image_mode tg clip_processor clip_model inp w)) =
      events w4 @ r1 @ r2"
    using r1 by auto
  then have ev: "events (snd (image_mode tg clip_processor clip_model inp w)) =
      events w @ [StImage, StSuccess (emoji_magnifier @ '' Top Relevant Concepts:'')] @
      map (\<lambda>(label, score).
             StWrite (''- **'' @ capitalize label @ ''** '' @ em_dash @
                      '' Probability: '' @ format_4f score)) top3 @ (r1 @ r2)"
    by (simp add: ev4 concept_row_def)
  have fm1: "(\<exists>ip fp. format_4f score = ip @ ''.'' @ fp \<and> length fp = 4 \<and>
                       list_all is_digit fp) \<and>
              CHR ''%'' \<notin> set (format_4f score)" for score
    using format_4f_shape [of score] format_4f_no_percent [of score] by blast
  have fm: "\<forall>(label, score) \<in> set top3.
              (\<exists>ip fp. format_4f score = ip @ ''.'' @ fp \<and> length fp = 4 \<and>
                       list_all is_digit fp) \<and>
              CHR ''%'' \<notin> set (format_4f score)"
    using fm1 by (simp add: case_prod_beta)
  from a have a': "fst (analyze_image clip_processor clip_model img (emit StImage w)) = Some top3"
    by (simp add: w1_def)
  from a' len ev fm show ?thesis by blast
qed

theorem image_mode_renders_rows_witness:
  "uploaded_image example_inputs = Some (Inr ()) \<and> button example_inputs \<and>
   example_processor concepts_vocab () = Inr concepts_vocab \<and>
   example_model concepts_vocab = Inr example_probs \<and>
   length example_probs = length concepts_vocab \<and>
   (\<exists>top3 rest.
      fst (analyze_image example_processor example_model ()
             (emit StImage \<lparr>events = [], rng = 0::nat\<rparr>)) = Some top3 \<and>
      length top3 = 3 \<and>
      events (snd (image_mode echo_generator example_processor example_model example_inputs
                     \<lparr>events = [], rng = 0\<rparr>)) =
        events \<lparr>events = [], rng = 0::nat\<rparr> @
        [StImage, StSuccess (emoji_magnifier @ '' Top Relevant Concepts:'')] @
        map (\<lambda>(label, score).
               StWrite (''- **'' @ capitalize label @ ''** '' @ em_dash @
                        '' Probability: '' @ format_4f score)) top3 @ rest \<and>
      (\<forall>(label, score) \<in> set top3.
         (\<exists>ip fp. format_4f score = ip @ ''.'' @ fp \<and> length fp = 4 \<and>
                  list_all is_digit fp) \<and>
         CHR ''%'' \<notin> set (format_4f score)))"
proof -
  have h1: "uploaded_image example_inputs = Some (Inr ())"
    and h2: "button example_inputs"
    by (simp_all add: example_inputs_def)
  have h3: "example_processor concepts_vocab () = Inr concepts_vocab"
    by (simp add: example_processor_def)
  have h4: "example_model concepts_vocab = Inr example_probs"
    by (simp add: example_model_def)
  have h5: "length example_probs = length concepts_vocab"
    by (simp add: example_probs_def concepts_vocab_def)
  from h1 h2 h3 h4 h5
    image_mode_renders_rows [of example_inputs "()" example_processor concepts_vocab
      example_model example_probs "\<lparr>events = [], rng = 0::nat\<rparr>" echo_generator,
      OF h1 h2 h3 h4 h5]
  show ?thesis by blast
qed

theorem image_mode_rows_not_percent:
  "events (snd (image_mode echo_generator example_processor example_model example_inputs
                  \<lparr>events = [], rng = 0\<rparr>)) =
     [StImage,
      StSuccess (emoji_magnifier @ '' Top Relevant Concepts:''),
      StWrite (''- **Education** '' @ em_dash @ '' Probability: 0.2500''),
      StWrite (''- **Robotics** '' @ em_dash @ '' Probability: 0.2500''),
      StWrite (''- **Healthcare** '' @ em_dash @ '' Probability: 0.1250''),
      TextGenCall (generation_request ''education innovation'' ''Healthcare''),
      StMarkdown (emoji_sparkles @ '' **Generated Idea:**''),
      StWrite (structured_prompt ''education innovation'' ''Healthcare'' @ '' Deploy river nets.'')] \<and>
   CHR ''%'' \<notin> set (''- **Education** '' @ em_dash @ '' Probability: 0.2500'') \<and>
   ''- **Education** '' @ em_dash @ '' Probability: 0.2500'' \<noteq>
     ''- **Education** '' @ em_dash @ '' Probability: 25.00%''"
proof -
  have ne: "structured_prompt ''education innovation'' ''Healthcare'' @ '' Deploy river nets.'' \<noteq> []"
    by simp
  have "events (snd (image_mode echo_generator example_processor example_model example_inputs
                  \<lparr>events = [], rng = 0\<rparr>)) =
     [StImage,
      StSuccess (emoji_magnifier @ '' Top Relevant Concepts:''),
      StWrite (''- **Education** '' @ em_dash @ '' Probability: 0.2500''),
      StWrite (''- **Robotics** '' @ em_dash @ '' Probability: 0.2500''),
      StWrite (''- **Healthcare** '' @ em_dash @ '' Probability: 0.1250''),
      TextGenCall (generation_request ''education innovation'' ''Healthcare''),
      StMarkdown (emoji_sparkles @ '' **Generated Idea:**''),
      StWrite (structured_prompt ''education innovation'' ''Healthcare'' @ '' Deploy river nets.'')]"
    using ne
    by (simp add: image_mode_def example_inputs_def analyze_image_example Let_def
        concept_row_examples echo_generator_example strip_echo_example events_emit
        del: append_is_Nil_conv)
  moreover have "CHR ''%'' \<notin> set (''- **Education** '' @ em_dash @ '' Probability: 0.2500'')"
    by (simp add: em_dash_def)
  moreover have "''- **Education** '' @ em_dash @ '' Probability: 0.2500'' \<noteq>
     ''- **Education** '' @ em_dash @ '' Probability: 25.00%''"
    by simp
  ultimately show ?thesis by blast
qed

end
